theory Spec2Isabelle
  imports Main "HOL-Library.Sublist"
begin

text \<open>
  A model of the two agents \<open>v1_basic_agent.py\<close> and \<open>v2_todo_agent.py\<close>: the task
  list of v2, the sandbox path resolver, the shell and file tools, the tool dispatcher,
  the agent loop and the prompt with its reminders. Functions keep the names of the
  source; where the two versions differ, the one of v1 has the suffix \<open>_v1\<close>.
\<close>

section \<open>Python text\<close>

text \<open>
  A Python \<open>str\<close> is a sequence of Unicode code points, so \<open>len\<close> counts code points
  and not bytes. A code point is a natural number; \<open>u\<close> turns an ASCII literal of the
  source into such a sequence.
\<close>

type_synonym pystr = "nat list"

definition u :: "string \<Rightarrow> pystr" where
  "u s = map of_char s"

text \<open>\<open>"sep".join(xs)\<close>.\<close>

fun py_join :: "pystr \<Rightarrow> pystr list \<Rightarrow> pystr" where
  "py_join sep [] = []"
| "py_join sep [x] = x"
| "py_join sep (x # y # ys) = x @ sep @ py_join sep (y # ys)"

text \<open>
  \<open>str.isspace\<close> of one code point: the code points \<open>str.strip()\<close> removes when it is
  called without an argument.
\<close>

definition isspace :: "nat \<Rightarrow> bool" where
  "isspace c \<longleftrightarrow>
     (9 \<le> c \<and> c \<le> 13) \<or> (28 \<le> c \<and> c \<le> 32) \<or> c = 133 \<or> c = 160 \<or> c = 5760 \<or>
     (8192 \<le> c \<and> c \<le> 8202) \<or> c = 8232 \<or> c = 8233 \<or> c = 8239 \<or> c = 8287 \<or> c = 12288"

definition lstrip :: "pystr \<Rightarrow> pystr" where
  "lstrip s = dropWhile isspace s"

definition rstrip :: "pystr \<Rightarrow> pystr" where
  "rstrip s = rev (dropWhile isspace (rev s))"

definition strip :: "pystr \<Rightarrow> pystr" where
  "strip s = rstrip (lstrip s)"

text \<open>
  \<open>str.lower()\<close>. On ASCII text it maps \<open>A\<close>..\<open>Z\<close> to \<open>a\<close>..\<open>z\<close>. On text with a code
  point beyond ASCII it follows the interpreter's Unicode tables (which are context
  dependent, as for the final sigma); that mapping is the parameter \<open>ulower\<close>.
\<close>

definition ascii_lower :: "nat \<Rightarrow> nat" where
  "ascii_lower c = (if 65 \<le> c \<and> c \<le> 90 then c + 32 else c)"

definition py_lower :: "(pystr \<Rightarrow> pystr) \<Rightarrow> pystr \<Rightarrow> pystr" where
  "py_lower ulower s = (if list_all (\<lambda>c. c < 128) s then map ascii_lower s else ulower s)"

text \<open>\<open>str(n)\<close> of an integer: its decimal digits, with a minus sign when negative.\<close>

fun digits :: "nat \<Rightarrow> pystr" where
  "digits n = (if n < 10 then [48 + n] else digits (n div 10) @ [48 + n mod 10])"

definition str_int :: "int \<Rightarrow> pystr" where
  "str_int i = (if i < 0 then 45 # digits (nat (- i)) else digits (nat i))"

text \<open>\<open>old in s\<close> on strings, and \<open>s.replace(old, new, 1)\<close>.\<close>

fun contains :: "pystr \<Rightarrow> pystr \<Rightarrow> bool" where
  "contains old [] = (old = [])"
| "contains old (c # cs) = (prefix old (c # cs) \<or> contains old cs)"

fun replace_first :: "pystr \<Rightarrow> pystr \<Rightarrow> pystr \<Rightarrow> pystr" where
  "replace_first old new [] = (if old = [] then new else [])"
| "replace_first old new (c # cs) =
     (if prefix old (c # cs) then new @ drop (length old) (c # cs)
      else c # replace_first old new cs)"

text \<open>
  \<open>str.splitlines()\<close>: a line ends at \<open>\n\<close>, \<open>\r\<close>, \<open>\r\n\<close>, \<open>\v\<close>, \<open>\f\<close>, the
  separators \<open>\x1c\<close>..\<open>\x1e\<close>, \<open>\x85\<close>, U+2028 and U+2029; the terminators are
  dropped, and text that ends with a terminator yields no empty last line.
\<close>

definition is_linebreak :: "nat \<Rightarrow> bool" where
  "is_linebreak c \<longleftrightarrow>
     c = 10 \<or> c = 11 \<or> c = 12 \<or> c = 13 \<or> c = 28 \<or> c = 29 \<or> c = 30 \<or> c = 133 \<or>
     c = 8232 \<or> c = 8233"

fun splitlines_from :: "pystr \<Rightarrow> pystr \<Rightarrow> pystr list" where
  "splitlines_from cur [] = (if cur = [] then [] else [cur])"
| "splitlines_from cur [c] = (if is_linebreak c then [cur] else [cur @ [c]])"
| "splitlines_from cur (c # d # cs) =
     (if c = 13 \<and> d = 10 then cur # splitlines_from [] cs
      else if is_linebreak c then cur # splitlines_from [] (d # cs)
      else splitlines_from (cur @ [c]) (d # cs))"

definition splitlines :: "pystr \<Rightarrow> pystr list" where
  "splitlines s = splitlines_from [] s"

section \<open>Exceptions\<close>

text \<open>
  The exceptions the code raises itself carry their message. The failures of the
  operating system and of the codec are kinds; the text \<open>str(e)\<close> gives for them is the
  interpreter's, the parameter \<open>os_text\<close> of the environment. \<open>Refused n\<close> is an
  \<open>OSError\<close> with error number \<open>n\<close> by which the operating system refuses an operation
  for a reason outside the model: a name or path too long (36), a missing permission (13),
  a read-only (30) or full (28) filesystem.
\<close>

datatype oskind =
  ENOENT | EISDIR | ENOTDIR | EEXIST | ELOOP | DecodeError | EncodeError | Refused nat

datatype exn = ValueError pystr | KeyError pystr | OSFailure oskind | GatewayError pystr

section \<open>The task list (v2, class TodoManager)\<close>

text \<open>
  The values \<open>update\<close> inspects. The argument is a list or something else; an element is
  a dict or something else; a field of a dict is any Python object, of which the code only
  takes \<open>str(...)\<close>: \<open>POther\<close> stands for an object of any further type and carries
  that text.
\<close>

datatype pyval = PNone | PBool bool | PInt int | PStr pystr | POther pystr

datatype pyitem = ItemDict "(pystr \<times> pyval) list" | ItemOther

datatype pyitems = ItemList "pyitem list" | ItemsOther

fun py_str :: "pyval \<Rightarrow> pystr" where
  "py_str PNone = u ''None''"
| "py_str (PBool b) = (if b then u ''True'' else u ''False'')"
| "py_str (PInt i) = str_int i"
| "py_str (PStr s) = s"
| "py_str (POther s) = s"

text \<open>\<open>d.get(key, default)\<close> on a dict given by its entries.\<close>

definition dict_get :: "(pystr \<times> pyval) list \<Rightarrow> pystr \<Rightarrow> pyval \<Rightarrow> pyval" where
  "dict_get d k dflt = (case map_of d k of None \<Rightarrow> dflt | Some v \<Rightarrow> v)"

record todo_item =
  content :: pystr
  status :: pystr
  activeForm :: pystr

definition statuses :: "pystr list" where
  "statuses = [u ''pending'', u ''in_progress'', u ''completed'']"

text \<open>
  The three fields of one item as \<open>update\<close> reads them:
  \<open>str(item.get("content", "")).strip()\<close>,
  \<open>str(item.get("status", "pending")).lower()\<close> and
  \<open>str(item.get("activeForm", "")).strip()\<close>.
\<close>

definition item_content :: "(pystr \<times> pyval) list \<Rightarrow> pystr" where
  "item_content d = strip (py_str (dict_get d (u ''content'') (PStr [])))"

definition item_status :: "(pystr \<Rightarrow> pystr) \<Rightarrow> (pystr \<times> pyval) list \<Rightarrow> pystr" where
  "item_status ul d = py_lower ul (py_str (dict_get d (u ''status'') (PStr (u ''pending''))))"

definition item_active :: "(pystr \<times> pyval) list \<Rightarrow> pystr" where
  "item_active d = strip (py_str (dict_get d (u ''activeForm'') (PStr [])))"

text \<open>
  The body of the \<open>for\<close> loop of \<open>update\<close>, from item \<open>i\<close> on, with the list
  \<open>validated\<close> and the counter \<open>in_progress_count\<close> built so far. A \<open>raise\<close> is the
  result \<open>Inl\<close>.
\<close>

fun validate_items ::
  "(pystr \<Rightarrow> pystr) \<Rightarrow> nat \<Rightarrow> pyitem list \<Rightarrow> todo_item list \<Rightarrow> nat \<Rightarrow> exn + (todo_item list \<times> nat)"
where
  "validate_items ul i [] validated n = Inr (validated, n)"
| "validate_items ul i (ItemOther # rest) validated n =
     Inl (ValueError (u ''Item '' @ str_int (int i) @ u '' must be an object''))"
| "validate_items ul i (ItemDict d # rest) validated n =
     (if item_content d = []
      then Inl (ValueError (u ''Item '' @ str_int (int i) @ u '': content required''))
      else if item_status ul d \<notin> set statuses
      then Inl (ValueError (u ''Item '' @ str_int (int i) @ u '': invalid status '' @ [39] @
                  item_status ul d @ [39]))
      else
        let n' = (if item_status ul d = u ''in_progress'' then n + 1 else n) in
        if item_active d = []
        then Inl (ValueError (u ''Item '' @ str_int (int i) @ u '': activeForm required''))
        else
          validate_items ul (i + 1) rest
            (validated @
               [\<lparr>content = item_content d, status = item_status ul d,
                 activeForm = item_active d\<rparr>])
            n')"

text \<open>\<open>TodoManager.render\<close> on the stored list \<open>self.items\<close>.\<close>

definition render_line :: "todo_item \<Rightarrow> pystr" where
  "render_line t =
     (if status t = u ''completed'' then u ''[x] '' @ content t
      else if status t = u ''in_progress''
      then u ''[>] '' @ content t @ u '' <- '' @ activeForm t
      else u ''[ ] '' @ content t)"

definition completed_count :: "todo_item list \<Rightarrow> nat" where
  "completed_count ts = length (filter (\<lambda>t. status t = u ''completed'') ts)"

definition count_line :: "todo_item list \<Rightarrow> pystr" where
  "count_line ts =
     [10] @ u ''('' @ str_int (int (completed_count ts)) @ u ''/'' @
     str_int (int (length ts)) @ u '' completed)''"

definition render :: "todo_item list \<Rightarrow> pystr" where
  "render ts =
     (if ts = [] then u ''No todos.''
      else py_join [10] (map render_line ts @ [count_line ts]))"

text \<open>
  \<open>TodoManager.update\<close>: the stored list goes in and comes out; it is assigned only
  after every check has passed.
\<close>

definition update ::
  "(pystr \<Rightarrow> pystr) \<Rightarrow> pyitems \<Rightarrow> todo_item list \<Rightarrow> (exn + pystr) \<times> todo_item list"
where
  "update ul items stored =
     (case items of
        ItemsOther \<Rightarrow> (Inl (ValueError (u ''Items must be a list'')), stored)
      | ItemList xs \<Rightarrow>
          (case validate_items ul 0 xs [] 0 of
             Inl e \<Rightarrow> (Inl e, stored)
           | Inr (validated, n) \<Rightarrow>
               if length validated > 20 then (Inl (ValueError (u ''Max 20 todos allowed'')), stored)
               else if n > 1
               then (Inl (ValueError (u ''Only one task can be in_progress'')), stored)
               else (Inr (render validated), validated)))"

section \<open>The environment of the process\<close>

text \<open>
  The model is of a POSIX system whose locale and file-name encoding is UTF-8.
\<close>

type_synonym path = "pystr list"

datatype node = Dir | File pystr | RawFile | Link pystr

text \<open>
  A path is absolute, given by its components below \<open>/\<close>. \<open>File t\<close> is a regular file
  whose bytes are the UTF-8 encoding of the text \<open>t\<close>, \<open>RawFile\<close> a regular file whose
  bytes do not decode, \<open>Link t\<close> a symbolic link with target \<open>t\<close>. The root \<open>[]\<close> is
  always a directory.
\<close>

type_synonym fsys = "path \<Rightarrow> node option"

datatype proc = Completed pystr pystr | TimeoutExpired | SpawnError pystr

text \<open>The system calls the file tools make on a path.\<close>

datatype io_op = Lstat | ReadLink | MakeDir | OpenRead | OpenWrite

text \<open>
  What the process takes from outside. \<open>workdir\<close> is \<open>WORKDIR = Path.cwd()\<close>.
  \<open>ulower\<close> is the interpreter's lower-casing of text beyond ASCII and \<open>os_text\<close> its
  message for a failure of the operating system. \<open>os_refuses f op q\<close> is the error number,
  if any, with which the operating system refuses the call \<open>op\<close> on the path \<open>q\<close> in the
  filesystem \<open>f\<close> for a reason outside the model (name length, permissions, read-only or
  full filesystem, resource limits). \<open>write_fault f q data\<close> is a failure while the data
  are written to the opened file, if any: the error number and the text the file is left
  with. \<open>shell\<close> is what \<open>subprocess.run\<close> does with a command on a filesystem.
\<close>

record env =
  workdir :: path
  ulower :: "pystr \<Rightarrow> pystr"
  os_text :: "oskind \<Rightarrow> pystr"
  os_refuses :: "fsys \<Rightarrow> io_op \<Rightarrow> path \<Rightarrow> nat option"
  write_fault :: "fsys \<Rightarrow> path \<Rightarrow> pystr \<Rightarrow> (nat \<times> pystr) option"
  shell :: "pystr \<Rightarrow> fsys \<Rightarrow> proc \<times> fsys"

text \<open>
  The state the tools act on: the filesystem, the stored list \<open>TODO.items\<close>, the
  global \<open>rounds_without_todo\<close>, and the commands handed to \<open>subprocess.run\<close> so far
  (the processes spawned).
\<close>

record world =
  fs :: fsys
  todo :: "todo_item list"
  rounds_without_todo :: nat
  spawned :: "pystr list"

text \<open>\<open>str(e)\<close> of an exception, as \<open>f"Error: {e}"\<close> formats it.\<close>

fun exn_text :: "env \<Rightarrow> exn \<Rightarrow> pystr" where
  "exn_text ev (ValueError m) = m"
| "exn_text ev (KeyError k) = [39] @ k @ [39]"
| "exn_text ev (OSFailure k) = os_text ev k"
| "exn_text ev (GatewayError m) = m"

section \<open>Paths (safe_path, both versions)\<close>

text \<open>The components of a path string, split at \<open>/\<close>.\<close>

fun split_from :: "pystr \<Rightarrow> pystr \<Rightarrow> pystr list" where
  "split_from cur [] = [cur]"
| "split_from cur (c # cs) =
     (if c = 47 then cur # split_from [] cs else split_from (cur @ [c]) cs)"

definition split_path :: "pystr \<Rightarrow> pystr list" where
  "split_path p = split_from [] p"

definition is_abs :: "pystr \<Rightarrow> bool" where
  "is_abs p = (case p of [] \<Rightarrow> False | c # _ \<Rightarrow> c = 47)"

text \<open>
  A name the file-name encoding accepts: UTF-8 with \<open>surrogateescape\<close> encodes every code
  point but the surrogates outside U+DC80..U+DCFF.
\<close>

definition fs_encodable :: "pystr \<Rightarrow> bool" where
  "fs_encodable c = list_all (\<lambda>x. \<not> (55296 \<le> x \<and> x \<le> 57343) \<or> (56448 \<le> x \<and> x \<le> 56575)) c"

text \<open>
  The target of the symbolic link at \<open>q\<close>, as \<open>os.lstat\<close> shows it to \<open>resolve()\<close>: an
  \<open>lstat\<close> that the operating system refuses is taken as "not a link".
\<close>

definition link_at :: "env \<Rightarrow> fsys \<Rightarrow> path \<Rightarrow> pystr option" where
  "link_at ev f q =
     (if os_refuses ev f Lstat q \<noteq> None then None
      else (case f q of Some (Link target) \<Rightarrow> Some target | _ \<Rightarrow> None))"

text \<open>
  The walk of \<open>Path.resolve()\<close>, on the real path \<open>cur\<close> reached so far and the
  components still to take, from left to right. Empty components and \<open>.\<close> are dropped, \<open>..\<close> goes to the
  parent (the root is its own parent), a name that does not encode or holds a NUL raises,
  a symbolic link is replaced by its target (from the root when the target is absolute),
  and any other name, existing or not, is kept. Links are followed without a bound, so the
  walk is partial: it does not end on a chain of links that leads back into itself, and
  where the links are finitely many only there.
\<close>

partial_function (option) realpath ::
  "env \<Rightarrow> fsys \<Rightarrow> path \<times> pystr list \<Rightarrow> (exn + path) option"
where
  "realpath ev f s =
     (case s of (cur, comps) \<Rightarrow>
        (case comps of
           [] \<Rightarrow> Some (Inr cur)
         | c # rest \<Rightarrow>
             if c = [] \<or> c = u ''.'' then realpath ev f (cur, rest)
             else if c = u ''..'' then realpath ev f (butlast cur, rest)
             else if \<not> fs_encodable c then Some (Inl (OSFailure EncodeError))
             else if 0 \<in> set c then Some (Inl (ValueError (u ''embedded null byte'')))
             else
               (case link_at ev f (cur @ [c]) of
                  None \<Rightarrow> realpath ev f (cur @ [c], rest)
                | Some target \<Rightarrow>
                    (case os_refuses ev f ReadLink (cur @ [c]) of
                       Some n \<Rightarrow> Some (Inl (OSFailure (Refused n)))
                     | None \<Rightarrow>
                         realpath ev f
                           (if is_abs target then [] else cur, split_path target @ rest)))))"

text \<open>
  \<open>Path.resolve()\<close> of an absolute path given by its components. A chain of links that
  never ends is the symlink loop that \<open>resolve()\<close> detects and raises.
\<close>

definition resolve :: "env \<Rightarrow> fsys \<Rightarrow> pystr list \<Rightarrow> exn + path" where
  "resolve ev f comps =
     (case realpath ev f ([], comps) of None \<Rightarrow> Inl (OSFailure ELOOP) | Some r \<Rightarrow> r)"

text \<open>\<open>WORKDIR / p\<close>: an absolute \<open>p\<close> replaces the root of the sandbox.\<close>

definition joined :: "env \<Rightarrow> pystr \<Rightarrow> pystr list" where
  "joined ev p = (if is_abs p then [] else workdir ev) @ split_path p"

definition safe_path :: "env \<Rightarrow> fsys \<Rightarrow> pystr \<Rightarrow> exn + path" where
  "safe_path ev f p =
     (case resolve ev f (joined ev p) of
        Inl e \<Rightarrow> Inl e
      | Inr q \<Rightarrow>
          if \<not> prefix (workdir ev) q
          then Inl (ValueError (u ''Path escapes workspace: '' @ p))
          else Inr q)"

section \<open>Files\<close>

definition is_dir :: "fsys \<Rightarrow> path \<Rightarrow> bool" where
  "is_dir f q \<longleftrightarrow> q = [] \<or> f q = Some Dir"

definition is_regular :: "fsys \<Rightarrow> path \<Rightarrow> bool" where
  "is_regular f q \<longleftrightarrow> q \<noteq> [] \<and> (case f q of Some (File t) \<Rightarrow> True | Some RawFile \<Rightarrow> True | _ \<Rightarrow> False)"

text \<open>A proper ancestor of \<open>q\<close> is a regular file: the path goes through a non-directory.\<close>

definition through_file :: "fsys \<Rightarrow> path \<Rightarrow> bool" where
  "through_file f q = list_ex (\<lambda>k. is_regular f (take k q)) [0..<length q]"

text \<open>
  Text mode on reading translates \<open>\r\n\<close> and \<open>\r\<close> to \<open>\n\<close> (universal newlines).
\<close>

fun universal_newlines :: "pystr \<Rightarrow> pystr" where
  "universal_newlines [] = []"
| "universal_newlines [c] = (if c = 13 then [10] else [c])"
| "universal_newlines (c # d # cs) =
     (if c = 13 \<and> d = 10 then 10 # universal_newlines cs
      else if c = 13 then 10 # universal_newlines (d # cs)
      else c # universal_newlines (d # cs))"

text \<open>
  The file operations below are applied to paths that \<open>resolve()\<close> returned.
  \<open>Path.read_text()\<close>:
\<close>

definition read_text :: "env \<Rightarrow> fsys \<Rightarrow> path \<Rightarrow> exn + pystr" where
  "read_text ev f q =
     (case os_refuses ev f OpenRead q of
        Some n \<Rightarrow> Inl (OSFailure (Refused n))
      | None \<Rightarrow>
          if is_dir f q then Inl (OSFailure EISDIR)
          else if through_file f q then Inl (OSFailure ENOTDIR)
          else
            (case f q of
               None \<Rightarrow> Inl (OSFailure ENOENT)
             | Some Dir \<Rightarrow> Inl (OSFailure EISDIR)
             | Some (File t) \<Rightarrow> Inr (universal_newlines t)
             | Some RawFile \<Rightarrow> Inl (OSFailure DecodeError)
             | Some (Link t) \<Rightarrow> Inl (OSFailure ELOOP)))"

text \<open>
  \<open>Path.mkdir(parents=True, exist_ok=True)\<close> on the path \<open>done @ comps\<close>, whose part
  \<open>done\<close> is known to be a directory: every missing directory is created, unless the
  operating system refuses; a regular file in the way is an error. The directories
  created before a failure stay.
\<close>

fun mkdir_parents :: "env \<Rightarrow> fsys \<Rightarrow> path \<Rightarrow> pystr list \<Rightarrow> (exn + unit) \<times> fsys" where
  "mkdir_parents ev f done [] = (Inr (), f)"
| "mkdir_parents ev f done (c # rest) =
     (case f (done @ [c]) of
        None \<Rightarrow>
          (case os_refuses ev f MakeDir (done @ [c]) of
             Some n \<Rightarrow> (Inl (OSFailure (Refused n)), f)
           | None \<Rightarrow> mkdir_parents ev (f(done @ [c] \<mapsto> Dir)) (done @ [c]) rest)
      | Some Dir \<Rightarrow> mkdir_parents ev f (done @ [c]) rest
      | Some (File t) \<Rightarrow> (Inl (OSFailure (if rest = [] then EEXIST else ENOTDIR)), f)
      | Some RawFile \<Rightarrow> (Inl (OSFailure (if rest = [] then EEXIST else ENOTDIR)), f)
      | Some (Link t) \<Rightarrow> (Inl (OSFailure EEXIST), f))"

text \<open>
  The code points UTF-8 cannot encode are the surrogates; the bytes of an encodable
  text number \<open>byte_length\<close>.
\<close>

definition encodable :: "pystr \<Rightarrow> bool" where
  "encodable s = list_all (\<lambda>c. \<not> (55296 \<le> c \<and> c \<le> 57343)) s"



text \<open>
  \<open>Path.write_text(data)\<close>: the file is opened for writing, which creates it or empties
  it, and the text is encoded and written. A refused open changes nothing. Text that
  does not encode leaves the file empty and raises; a failure while writing leaves what
  the operating system wrote.
\<close>

definition write_text :: "env \<Rightarrow> fsys \<Rightarrow> path \<Rightarrow> pystr \<Rightarrow> (exn + unit) \<times> fsys" where
  "write_text ev f q data =
     (case os_refuses ev f OpenWrite q of
        Some n \<Rightarrow> (Inl (OSFailure (Refused n)), f)
      | None \<Rightarrow>
          if is_dir f q then (Inl (OSFailure EISDIR), f)
          else if through_file f q then (Inl (OSFailure ENOTDIR), f)
          else if \<not> is_dir f (butlast q) then (Inl (OSFailure ENOENT), f)
          else
            (case f q of
               Some (Link t) \<Rightarrow> (Inl (OSFailure ELOOP), f)
             | _ \<Rightarrow>
                 if \<not> encodable data then (Inl (OSFailure EncodeError), f(q \<mapsto> File []))
                 else
                   (case write_fault ev f q data of
                      Some (n, left) \<Rightarrow> (Inl (OSFailure (Refused n)), f(q \<mapsto> File left))
                    | None \<Rightarrow> (Inr (), f(q \<mapsto> File data)))))"

section \<open>The tools\<close>

text \<open>
  Every \<open>run_*\<close> function is a \<open>try\<close> block with \<open>except Exception as e: return
  f"Error: {e}"\<close>. The block is modelled by a function \<open>*_try\<close> whose result \<open>Inl e\<close>
  is the exception raised in it; the tool turns that into the text.
\<close>

definition on_error :: "env \<Rightarrow> exn + pystr \<Rightarrow> pystr" where
  "on_error ev r = (case r of Inl e \<Rightarrow> u ''Error: '' @ exn_text ev e | Inr t \<Rightarrow> t)"

subsection \<open>run_bash\<close>

definition dangerous :: "pystr list" where
  "dangerous = [u ''rm -rf /'', u ''sudo'', u ''shutdown'', u ''reboot'']"

definition dangerous_v1 :: "pystr list" where
  "dangerous_v1 = [u ''rm -rf /'', u ''sudo'', u ''shutdown'', u ''reboot'', u ''> /dev/'']"

text \<open>
  The part of \<open>run_bash\<close> after the denylist: the command is handed to
  \<open>subprocess.run\<close> (a process is spawned), and the outcome becomes text. The two
  versions differ in the text for a timeout.
\<close>

definition spawn :: "env \<Rightarrow> pystr \<Rightarrow> pystr \<Rightarrow> world \<Rightarrow> pystr \<times> world" where
  "spawn ev timeout_text cmd w =
     (case shell ev cmd (fs w) of (outcome, f') \<Rightarrow>
        ((case outcome of
            Completed out err \<Rightarrow>
              (let output = strip (out @ err) in
               if output \<noteq> [] then take 50000 output else u ''(no output)'')
          | TimeoutExpired \<Rightarrow> timeout_text
          | SpawnError m \<Rightarrow> u ''Error: '' @ m),
         w\<lparr>fs := f', spawned := spawned w @ [cmd]\<rparr>))"

definition run_bash :: "env \<Rightarrow> pystr \<Rightarrow> world \<Rightarrow> pystr \<times> world" where
  "run_bash ev cmd w =
     (if list_ex (\<lambda>d. contains d cmd) dangerous then (u ''Error: Dangerous command blocked'', w)
      else spawn ev (u ''Error: Timeout'') cmd w)"

definition run_bash_v1 :: "env \<Rightarrow> pystr \<Rightarrow> world \<Rightarrow> pystr \<times> world" where
  "run_bash_v1 ev cmd w =
     (if list_ex (\<lambda>d. contains d cmd) dangerous_v1
      then (u ''Error: Dangerous command blocked'', w)
      else spawn ev (u ''Error: Command timed out (60s)'') cmd w)"

subsection \<open>run_read\<close>

text \<open>\<open>lines[:limit]\<close>: a negative limit counts from the end.\<close>

definition slice_to :: "int \<Rightarrow> 'a list \<Rightarrow> 'a list" where
  "slice_to limit xs = (if 0 \<le> limit then take (nat limit) xs else take (length xs - nat (- limit)) xs)"

text \<open>
  The \<open>if limit and limit < len(lines)\<close> of \<open>run_read\<close>; \<open>None\<close> and \<open>0\<close> are both
  false as a condition. \<open>marker_end\<close> is the end of the marker, \<open>more)\<close> in v2 and
  \<open>more lines)\<close> in v1.
\<close>

definition limit_lines :: "pystr \<Rightarrow> int option \<Rightarrow> pystr list \<Rightarrow> pystr list" where
  "limit_lines marker_end limit lines =
     (case limit of
        None \<Rightarrow> lines
      | Some l \<Rightarrow>
          if l \<noteq> 0 \<and> l < int (length lines)
          then slice_to l lines @ [u ''... ('' @ str_int (int (length lines) - l) @ marker_end]
          else lines)"

definition run_read_try :: "env \<Rightarrow> pystr \<Rightarrow> pystr \<Rightarrow> int option \<Rightarrow> fsys \<Rightarrow> exn + pystr" where
  "run_read_try ev marker_end p limit f =
     (case safe_path ev f p of
        Inl e \<Rightarrow> Inl e
      | Inr q \<Rightarrow>
          (case read_text ev f q of
             Inl e \<Rightarrow> Inl e
           | Inr text \<Rightarrow> Inr (take 50000 (py_join [10] (limit_lines marker_end limit (splitlines text))))))"

definition run_read :: "env \<Rightarrow> pystr \<Rightarrow> int option \<Rightarrow> world \<Rightarrow> pystr" where
  "run_read ev p limit w = on_error ev (run_read_try ev (u '' more)'') p limit (fs w))"

definition run_read_v1 :: "env \<Rightarrow> pystr \<Rightarrow> int option \<Rightarrow> world \<Rightarrow> pystr" where
  "run_read_v1 ev p limit w = on_error ev (run_read_try ev (u '' more lines)'') p limit (fs w))"

subsection \<open>run_write\<close>

definition run_write_try :: "env \<Rightarrow> pystr \<Rightarrow> pystr \<Rightarrow> fsys \<Rightarrow> (exn + pystr) \<times> fsys" where
  "run_write_try ev p data f =
     (case safe_path ev f p of
        Inl e \<Rightarrow> (Inl e, f)
      | Inr fp \<Rightarrow>
          (case mkdir_parents ev f [] (butlast fp) of
             (Inl e, f1) \<Rightarrow> (Inl e, f1)
           | (Inr _, f1) \<Rightarrow>
               (case write_text ev f1 fp data of
                  (Inl e, f2) \<Rightarrow> (Inl e, f2)
                | (Inr _, f2) \<Rightarrow>
                    (Inr (u ''Wrote '' @ str_int (int (length data)) @ u '' bytes to '' @ p), f2))))"

definition run_write :: "env \<Rightarrow> pystr \<Rightarrow> pystr \<Rightarrow> world \<Rightarrow> pystr \<times> world" where
  "run_write ev p data w =
     (case run_write_try ev p data (fs w) of (r, f') \<Rightarrow> (on_error ev r, w\<lparr>fs := f'\<rparr>))"

subsection \<open>run_edit\<close>

definition run_edit_try ::
  "env \<Rightarrow> pystr \<Rightarrow> pystr \<Rightarrow> pystr \<Rightarrow> fsys \<Rightarrow> (exn + pystr) \<times> fsys"
where
  "run_edit_try ev p old_text new_text f =
     (case safe_path ev f p of
        Inl e \<Rightarrow> (Inl e, f)
      | Inr fp \<Rightarrow>
          (case read_text ev f fp of
             Inl e \<Rightarrow> (Inl e, f)
           | Inr text \<Rightarrow>
               if \<not> contains old_text text then (Inr (u ''Error: Text not found in '' @ p), f)
               else
                 (case write_text ev f fp (replace_first old_text new_text text) of
                    (Inl e, f') \<Rightarrow> (Inl e, f')
                  | (Inr _, f') \<Rightarrow> (Inr (u ''Edited '' @ p), f'))))"

definition run_edit :: "env \<Rightarrow> pystr \<Rightarrow> pystr \<Rightarrow> pystr \<Rightarrow> world \<Rightarrow> pystr \<times> world" where
  "run_edit ev p old_text new_text w =
     (case run_edit_try ev p old_text new_text (fs w) of
        (r, f') \<Rightarrow> (on_error ev r, w\<lparr>fs := f'\<rparr>))"

subsection \<open>run_todo (v2)\<close>

definition run_todo :: "env \<Rightarrow> pyitems \<Rightarrow> world \<Rightarrow> pystr \<times> world" where
  "run_todo ev items w =
     (case update (ulower ev) items (todo w) of
        (r, stored) \<Rightarrow> (on_error ev r, w\<lparr>todo := stored\<rparr>))"

section \<open>Tool dispatch\<close>

text \<open>
  The \<open>input\<close> dict of a tool call, with the fields of the tool schemas at their
  annotated types; a field that is \<open>None\<close> is a key the dict does not have. The
  subscript \<open>input["key"]\<close> of a missing key raises \<open>KeyError\<close> to the caller of
  \<open>execute_tool\<close>, outside every \<open>try\<close>; \<open>input.get("limit")\<close> does not.
\<close>

record tool_input =
  in_command :: "pystr option"
  in_path :: "pystr option"
  in_limit :: "int option"
  in_content :: "pystr option"
  in_old_text :: "pystr option"
  in_new_text :: "pystr option"
  in_items :: "pyitems option"

definition subscript :: "'a option \<Rightarrow> string \<Rightarrow> exn + 'a" where
  "subscript v key = (case v of None \<Rightarrow> Inl (KeyError (u key)) | Some x \<Rightarrow> Inr x)"

definition execute_tool :: "env \<Rightarrow> pystr \<Rightarrow> tool_input \<Rightarrow> world \<Rightarrow> (exn + pystr) \<times> world" where
  "execute_tool ev name inp w =
     (if name = u ''bash'' then
        (case subscript (in_command inp) ''command'' of
           Inl e \<Rightarrow> (Inl e, w)
         | Inr cmd \<Rightarrow> (case run_bash ev cmd w of (t, w') \<Rightarrow> (Inr t, w')))
      else if name = u ''read_file'' then
        (case subscript (in_path inp) ''path'' of
           Inl e \<Rightarrow> (Inl e, w)
         | Inr p \<Rightarrow> (Inr (run_read ev p (in_limit inp) w), w))
      else if name = u ''write_file'' then
        (case subscript (in_path inp) ''path'' of
           Inl e \<Rightarrow> (Inl e, w)
         | Inr p \<Rightarrow>
             (case subscript (in_content inp) ''content'' of
                Inl e \<Rightarrow> (Inl e, w)
              | Inr data \<Rightarrow> (case run_write ev p data w of (t, w') \<Rightarrow> (Inr t, w'))))
      else if name = u ''edit_file'' then
        (case subscript (in_path inp) ''path'' of
           Inl e \<Rightarrow> (Inl e, w)
         | Inr p \<Rightarrow>
             (case subscript (in_old_text inp) ''old_text'' of
                Inl e \<Rightarrow> (Inl e, w)
              | Inr old_text \<Rightarrow>
                  (case subscript (in_new_text inp) ''new_text'' of
                     Inl e \<Rightarrow> (Inl e, w)
                   | Inr new_text \<Rightarrow>
                       (case run_edit ev p old_text new_text w of (t, w') \<Rightarrow> (Inr t, w')))))
      else if name = u ''TodoWrite'' then
        (case subscript (in_items inp) ''items'' of
           Inl e \<Rightarrow> (Inl e, w)
         | Inr items \<Rightarrow> (case run_todo ev items w of (t, w') \<Rightarrow> (Inr t, w')))
      else (Inr (u ''Unknown tool: '' @ name), w))"

text \<open>The dispatcher of v1 has no \<open>TodoWrite\<close> and uses the \<open>run_bash\<close> and \<open>run_read\<close> of v1.\<close>

definition execute_tool_v1 :: "env \<Rightarrow> pystr \<Rightarrow> tool_input \<Rightarrow> world \<Rightarrow> (exn + pystr) \<times> world" where
  "execute_tool_v1 ev name inp w =
     (if name = u ''bash'' then
        (case subscript (in_command inp) ''command'' of
           Inl e \<Rightarrow> (Inl e, w)
         | Inr cmd \<Rightarrow> (case run_bash_v1 ev cmd w of (t, w') \<Rightarrow> (Inr t, w')))
      else if name = u ''read_file'' then
        (case subscript (in_path inp) ''path'' of
           Inl e \<Rightarrow> (Inl e, w)
         | Inr p \<Rightarrow> (Inr (run_read_v1 ev p (in_limit inp) w), w))
      else if name = u ''write_file'' then
        (case subscript (in_path inp) ''path'' of
           Inl e \<Rightarrow> (Inl e, w)
         | Inr p \<Rightarrow>
             (case subscript (in_content inp) ''content'' of
                Inl e \<Rightarrow> (Inl e, w)
              | Inr data \<Rightarrow> (case run_write ev p data w of (t, w') \<Rightarrow> (Inr t, w'))))
      else if name = u ''edit_file'' then
        (case subscript (in_path inp) ''path'' of
           Inl e \<Rightarrow> (Inl e, w)
         | Inr p \<Rightarrow>
             (case subscript (in_old_text inp) ''old_text'' of
                Inl e \<Rightarrow> (Inl e, w)
              | Inr old_text \<Rightarrow>
                  (case subscript (in_new_text inp) ''new_text'' of
                     Inl e \<Rightarrow> (Inl e, w)
                   | Inr new_text \<Rightarrow>
                       (case run_edit ev p old_text new_text w of (t, w') \<Rightarrow> (Inr t, w')))))
      else (Inr (u ''Unknown tool: '' @ name), w))"

section \<open>The agent loop and the prompt (v2)\<close>















section \<open>Notions of the specification and sample data\<close>

text \<open>
  The validation rules as the specification words them, on the input: an item is
  acceptable when it is a structured item whose trimmed content and activeForm are not
  empty and whose status, lower-cased, is one of the three.
\<close>

definition item_ok :: "(pystr \<Rightarrow> pystr) \<Rightarrow> pyitem \<Rightarrow> bool" where
  "item_ok ul x =
     (case x of
        ItemOther \<Rightarrow> False
      | ItemDict d \<Rightarrow>
          item_content d \<noteq> [] \<and> item_active d \<noteq> [] \<and> item_status ul d \<in> set statuses)"

definition status_of :: "(pystr \<Rightarrow> pystr) \<Rightarrow> pyitem \<Rightarrow> pystr" where
  "status_of ul x = (case x of ItemOther \<Rightarrow> [] | ItemDict d \<Rightarrow> item_status ul d)"

definition count_status :: "(pystr \<Rightarrow> pystr) \<Rightarrow> pystr \<Rightarrow> pyitem list \<Rightarrow> nat" where
  "count_status ul s xs = length (filter (\<lambda>x. status_of ul x = s) xs)"

definition violates :: "(pystr \<Rightarrow> pystr) \<Rightarrow> pyitems \<Rightarrow> bool" where
  "violates ul items =
     (case items of
        ItemsOther \<Rightarrow> True
      | ItemList xs \<Rightarrow>
          \<not> list_all (item_ok ul) xs \<or> 20 < length xs \<or>
          1 < count_status ul (u ''in_progress'') xs)"

definition valid_items :: "(pystr \<Rightarrow> pystr) \<Rightarrow> pyitem list \<Rightarrow> bool" where
  "valid_items ul xs \<longleftrightarrow>
     length xs \<le> 20 \<and> count_status ul (u ''in_progress'') xs \<le> 1 \<and> list_all (item_ok ul) xs"

text \<open>The item the manager stores for an acceptable input item.\<close>

definition stored_item :: "(pystr \<Rightarrow> pystr) \<Rightarrow> pyitem \<Rightarrow> todo_item" where
  "stored_item ul x =
     (case x of
        ItemOther \<Rightarrow> \<lparr>content = [], status = [], activeForm = []\<rparr>
      | ItemDict d \<Rightarrow>
          \<lparr>content = item_content d, status = item_status ul d, activeForm = item_active d\<rparr>)"

text \<open>The trailing count \<open>(completed/total completed)\<close>.\<close>

definition trailing_count :: "nat \<Rightarrow> nat \<Rightarrow> pystr" where
  "trailing_count c n =
     u ''('' @ str_int (int c) @ u ''/'' @ str_int (int n) @ u '' completed)''"

text \<open>Sample inputs.\<close>

definition sample_item :: "string \<Rightarrow> pyitem" where
  "sample_item st =
     ItemDict [(u ''content'', PStr (u ''write tests'')), (u ''status'', PStr (u st)),
               (u ''activeForm'', PStr (u ''Writing tests''))]"

definition sample_stored :: "todo_item list" where
  "sample_stored = [\<lparr>content = u ''old'', status = u ''pending'', activeForm = u ''Keeping''\<rparr>]"

text \<open>A sample environment, filesystem and state.\<close>

definition sample_env :: env where
  "sample_env = \<lparr>workdir = [u ''home'', u ''work''], ulower = (\<lambda>s. s),
     os_text = (\<lambda>k. u ''failed''), os_refuses = (\<lambda>f op q. None),
     write_fault = (\<lambda>f q data. None),
     shell = (\<lambda>cmd f. (Completed [] [], f))\<rparr>"

definition sample_fs :: fsys where
  "sample_fs = [[u ''home''] \<mapsto> Dir, [u ''home'', u ''work''] \<mapsto> Dir,
     [u ''home'', u ''work'', u ''notes.txt''] \<mapsto> File (u ''a\<newline>b\<newline>c''),
     [u ''home'', u ''work'', u ''dos.txt''] \<mapsto> File ([120, 13, 10] @ u ''y x'')]"

definition sample_world :: world where
  "sample_world = \<lparr>fs = sample_fs, todo = sample_stored, rounds_without_todo = 3, spawned = []\<rparr>"

text \<open>
  A plain name: a path component that is not empty, \<open>.\<close> or \<open>..\<close>, has no NUL and
  encodes as a file name. The components of a current directory are plain. A filesystem
  without symbolic links.
\<close>

definition plain :: "pystr \<Rightarrow> bool" where
  "plain c \<longleftrightarrow> c \<noteq> [] \<and> c \<noteq> u ''.'' \<and> c \<noteq> u ''..'' \<and> 0 \<notin> set c \<and> fs_encodable c"

definition no_links :: "fsys \<Rightarrow> bool" where
  "no_links f \<longleftrightarrow> (\<forall>q t. f q \<noteq> Some (Link t))"

text \<open>
  \<open>first_at old s k\<close>: the first occurrence of \<open>old\<close> in \<open>s\<close> starts at index \<open>k\<close>.
  \<open>can_write f fp\<close>: nothing is in the way of writing the file \<open>fp\<close>: each proper ancestor
  is missing or a directory, and \<open>fp\<close> itself is missing or a regular file.
\<close>

definition first_at :: "pystr \<Rightarrow> pystr \<Rightarrow> nat \<Rightarrow> bool" where
  "first_at old s k \<longleftrightarrow>
     k \<le> length s \<and> prefix old (drop k s) \<and> list_all (\<lambda>j. \<not> prefix old (drop j s)) [0..<k]"



definition dos_path :: path where "dos_path = [u ''home'', u ''work'', u ''dos.txt'']"

text \<open>
  The tools each dispatcher knows, and the schema of each: the required keys are present.
  A name without a schema has nothing to require.
\<close>

definition tool_names :: "pystr list" where
  "tool_names = [u ''bash'', u ''read_file'', u ''write_file'', u ''edit_file'', u ''TodoWrite'']"

definition tool_names_v1 :: "pystr list" where
  "tool_names_v1 = [u ''bash'', u ''read_file'', u ''write_file'', u ''edit_file'']"

definition schema_ok :: "pystr \<Rightarrow> tool_input \<Rightarrow> bool" where
  "schema_ok name inp =
     (if name = u ''bash'' then in_command inp \<noteq> None
      else if name = u ''read_file'' then in_path inp \<noteq> None
      else if name = u ''write_file'' then in_path inp \<noteq> None \<and> in_content inp \<noteq> None
      else if name = u ''edit_file''
      then in_path inp \<noteq> None \<and> in_old_text inp \<noteq> None \<and> in_new_text inp \<noteq> None
      else if name = u ''TodoWrite'' then in_items inp \<noteq> None
      else True)"

text \<open>
  A failure inside a tool, said on the input and the state: the command is on the
  denylist, times out or cannot be run; the \<open>try\<close> block of a file tool raises (bad path,
  missing file); the text to edit is not found; the task list violates a rule.
\<close>

definition bash_failed :: "pystr list \<Rightarrow> env \<Rightarrow> pystr \<Rightarrow> world \<Rightarrow> bool" where
  "bash_failed denylist ev cmd w =
     (list_ex (\<lambda>d. contains d cmd) denylist \<or>
      (case fst (shell ev cmd (fs w)) of Completed out err \<Rightarrow> False | _ \<Rightarrow> True))"

definition edit_failed :: "env \<Rightarrow> pystr \<Rightarrow> pystr \<Rightarrow> pystr \<Rightarrow> world \<Rightarrow> bool" where
  "edit_failed ev p old_text new_text w =
     (isl (fst (run_edit_try ev p old_text new_text (fs w))) \<or>
      (case safe_path ev (fs w) p of
         Inl e \<Rightarrow> False
       | Inr fp \<Rightarrow>
           (case read_text ev (fs w) fp of Inl e \<Rightarrow> False | Inr text \<Rightarrow> \<not> contains old_text text)))"

definition tool_failed :: "bool \<Rightarrow> env \<Rightarrow> pystr \<Rightarrow> tool_input \<Rightarrow> world \<Rightarrow> bool" where
  "tool_failed v1 ev name inp w =
     (if name = u ''bash''
      then bash_failed (if v1 then dangerous_v1 else dangerous) ev (the (in_command inp)) w
      else if name = u ''read_file''
      then isl (run_read_try ev [] (the (in_path inp)) (in_limit inp) (fs w))
      else if name = u ''write_file''
      then isl (fst (run_write_try ev (the (in_path inp)) (the (in_content inp)) (fs w)))
      else if name = u ''edit_file''
      then edit_failed ev (the (in_path inp)) (the (in_old_text inp)) (the (in_new_text inp)) w
      else if name = u ''TodoWrite'' \<and> \<not> v1
      then violates (ulower ev) (the (in_items inp))
      else False)"




text \<open>
  Sample inputs of the dispatcher and a sample gateway: it asks once for a task-list
  update whose items are not a list, then gives its final answer.
\<close>

definition no_input :: tool_input where
  "no_input = \<lparr>in_command = None, in_path = None, in_limit = None, in_content = None,
     in_old_text = None, in_new_text = None, in_items = None\<rparr>"




















section \<open>Properties of the task list\<close>

lemma validate_items_Inr:
  "validate_items ul i xs v n = Inr (v', n') \<Longrightarrow>
     list_all (item_ok ul) xs \<and> v' = v @ map (stored_item ul) xs \<and>
     n' = n + count_status ul (u ''in_progress'') xs"
proof (induction ul i xs v n rule: validate_items.induct)
  case (1 ul i validated n)
  then show ?case by (simp add: count_status_def)
next
  case (2 ul i rest validated n)
  then show ?case by simp
next
  case (3 ul i d rest validated n)
  then show ?case
    by (auto simp: Let_def item_ok_def stored_item_def count_status_def status_of_def
        split: if_splits)
qed

lemma validate_items_ok:
  "list_all (item_ok ul) xs \<Longrightarrow>
   validate_items ul i xs v n =
     Inr (v @ map (stored_item ul) xs, n + count_status ul (u ''in_progress'') xs)"
proof (induction ul i xs v n rule: validate_items.induct)
  case (1 ul i validated n)
  then show ?case by (simp add: count_status_def)
next
  case (2 ul i rest validated n)
  then show ?case by (simp add: item_ok_def)
next
  case (3 ul i d rest validated n)
  then show ?case
    by (auto simp: Let_def item_ok_def stored_item_def count_status_def status_of_def
        split: if_splits)
qed

lemma validate_items_Inl:
  "validate_items ul i xs v n = Inl e \<Longrightarrow> \<exists>msg. e = ValueError msg"
  by (induction ul i xs v n rule: validate_items.induct) (auto simp: Let_def split: if_splits)

lemma py_join_snoc:
  "py_join sep (xs @ [z]) = (if xs = [] then z else py_join sep xs @ sep @ z)"
  by (induction sep xs rule: py_join.induct) auto

lemma status_stored_item: "status (stored_item ul x) = status_of ul x"
  by (cases x) (simp_all add: stored_item_def status_of_def)

lemma completed_count_stored:
  "completed_count (map (stored_item ul) xs) = count_status ul (u ''completed'') xs"
  by (induction xs) (simp_all add: completed_count_def count_status_def status_stored_item)

lemma sample_fields:
  "item_content [(u ''content'', PStr (u ''write tests'')), (u ''status'', PStr (u st)),
                 (u ''activeForm'', PStr (u ''Writing tests''))] = u ''write tests''"
  "item_active [(u ''content'', PStr (u ''write tests'')), (u ''status'', PStr (u st)),
                (u ''activeForm'', PStr (u ''Writing tests''))] = u ''Writing tests''"
  "item_status ul [(u ''content'', PStr (u ''write tests'')), (u ''status'', PStr (u st)),
                   (u ''activeForm'', PStr (u ''Writing tests''))] = py_lower ul (u st)"
  by (simp_all add: item_content_def item_active_def item_status_def dict_get_def u_def
      strip_def lstrip_def rstrip_def isspace_def)

lemma lower_statuses:
  "py_lower ul (u ''in_progress'') = u ''in_progress''"
  "py_lower ul (u ''completed'') = u ''completed''"
  "py_lower ul (u ''pending'') = u ''pending''"
  "py_lower ul (u ''In_Progress'') = u ''in_progress''"
  by (simp_all add: py_lower_def u_def ascii_lower_def)

lemma update_raises:
  assumes "violates ul items"
  shows "\<exists>msg. update ul items stored = (Inl (ValueError msg), stored)"
proof (cases items)
  case ItemsOther
  then show ?thesis by (simp add: update_def)
next
  case (ItemList xs)
  show ?thesis
  proof (cases "validate_items ul 0 xs [] 0")
    case (Inl e)
    then obtain msg where "e = ValueError msg" using validate_items_Inl by blast
    with Inl ItemList show ?thesis by (simp add: update_def)
  next
    case (Inr r)
    obtain v n where r: "r = (v, n)" by (cases r)
    from Inr r validate_items_Inr [of ul 0 xs "[]" 0 v n]
    have ok: "list_all (item_ok ul) xs" and v: "v = map (stored_item ul) xs"
      and n: "n = count_status ul (u ''in_progress'') xs" by simp_all
    from assms ItemList ok
    have "20 < length xs \<or> 1 < count_status ul (u ''in_progress'') xs"
      by (simp add: violates_def)
    with Inr r v n ItemList show ?thesis by (auto simp: update_def)
  qed
qed

text \<open>
  C1. Whenever the input of \<open>update\<close> violates a validation rule (it is not a list, an
  element is not a structured item, a trimmed content or activeForm is empty, a status is
  not one of the three, there are more than 20 items, or more than one item is
  in_progress), \<open>update\<close> raises a \<open>ValueError\<close> with a message and the stored list is
  the one stored before: nothing is committed.
\<close>

theorem update_violation_atomic:
  assumes "violates ul items"
  shows "\<exists>msg. update ul items stored = (Inl (ValueError msg), stored)"
  using assms by (rule update_raises)

theorem update_violation_atomic_witness:
  "violates (\<lambda>s. s) (ItemList [sample_item ''in_progress'', sample_item ''In_Progress'']) \<and>
   (\<exists>msg. update (\<lambda>s. s) (ItemList [sample_item ''in_progress'', sample_item ''In_Progress''])
            sample_stored = (Inl (ValueError msg), sample_stored)) \<and>
   violates (\<lambda>s. s) (ItemList (replicate 21 (sample_item ''pending''))) \<and>
   (\<exists>msg. update (\<lambda>s. s) (ItemList (replicate 21 (sample_item ''pending'')))
            sample_stored = (Inl (ValueError msg), sample_stored))"
proof -
  have v: "violates (\<lambda>s. s) (ItemList [sample_item ''in_progress'', sample_item ''In_Progress''])"
    by (simp add: violates_def count_status_def status_of_def sample_item_def sample_fields
        lower_statuses)
  have w: "violates (\<lambda>s. s) (ItemList (replicate 21 (sample_item ''pending'')))"
    by (simp add: violates_def)
  from update_violation_atomic [OF v, of sample_stored]
    update_violation_atomic [OF w, of sample_stored] v w
  show ?thesis by simp
qed

text \<open>
  C2, as the code has it. For every valid item list (at most 20 entries, at most one
  in_progress, every content and activeForm non-empty after trimming, every status one of
  the three case-insensitively) \<open>update\<close> succeeds and stores the validated items. When
  the list is not empty the text returned ends with the count \<open>(completed/total completed)\<close>,
  where completed is the number of input items whose status is completed and total is
  the length of the input. For the empty list the text is \<open>No todos.\<close>, without a count.
\<close>

theorem update_valid_count:
  assumes "valid_items ul xs"
  shows "\<exists>txt. update ul (ItemList xs) stored = (Inr txt, map (stored_item ul) xs) \<and>
           (if xs = [] then txt = u ''No todos.''
            else suffix (trailing_count (count_status ul (u ''completed'') xs) (length xs)) txt)"
proof -
  from assms have ok: "list_all (item_ok ul) xs" and len: "length xs \<le> 20"
    and ip: "count_status ul (u ''in_progress'') xs \<le> 1"
    by (simp_all add: valid_items_def)
  have upd: "update ul (ItemList xs) stored =
      (Inr (render (map (stored_item ul) xs)), map (stored_item ul) xs)"
    using len ip by (simp add: update_def validate_items_ok [OF ok])
  have "suffix (trailing_count (count_status ul (u ''completed'') xs) (length xs))
          (render (map (stored_item ul) xs))" if "xs \<noteq> []"
  proof -
    have "render (map (stored_item ul) xs) =
        py_join [10] (map render_line (map (stored_item ul) xs)) @ [10] @
        count_line (map (stored_item ul) xs)"
      using that by (simp add: render_def py_join_snoc)
    moreover have "count_line (map (stored_item ul) xs) =
        [10] @ trailing_count (count_status ul (u ''completed'') xs) (length xs)"
      by (simp add: count_line_def trailing_count_def completed_count_stored)
    ultimately show ?thesis by (simp add: suffix_def)
  qed
  moreover have "render (map (stored_item ul) xs) = u ''No todos.''" if "xs = []"
    using that by (simp add: render_def)
  ultimately show ?thesis using upd by auto
qed

theorem update_valid_count_witness:
  "valid_items (\<lambda>s. s) [sample_item ''completed'', sample_item ''pending''] \<and>
   (\<exists>txt. update (\<lambda>s. s) (ItemList [sample_item ''completed'', sample_item ''pending''])
            sample_stored =
            (Inr txt, map (stored_item (\<lambda>s. s)) [sample_item ''completed'', sample_item ''pending'']) \<and>
          suffix (u ''(1/2 completed)'') txt)"
proof -
  have v: "valid_items (\<lambda>s. s) [sample_item ''completed'', sample_item ''pending'']"
    by (simp add: valid_items_def count_status_def status_of_def sample_item_def sample_fields
        lower_statuses item_ok_def statuses_def) (simp add: u_def)
  have c: "trailing_count
             (count_status (\<lambda>s. s) (u ''completed'')
                [sample_item ''completed'', sample_item ''pending''])
             (length [sample_item ''completed'', sample_item ''pending'']) =
           u ''(1/2 completed)''"
    by (simp add: trailing_count_def count_status_def status_of_def sample_item_def
        sample_fields lower_statuses str_int_def) (simp add: u_def)
  from update_valid_count [OF v, of sample_stored] v c show ?thesis by simp
qed

text \<open>
  The claim as written also covers the empty list; there the text has no count.
\<close>

theorem update_empty_no_count:
  "valid_items (\<lambda>s. s) [] \<and>
   update (\<lambda>s. s) (ItemList []) sample_stored = (Inr (u ''No todos.''), []) \<and>
   \<not> suffix (trailing_count 0 0) (u ''No todos.'')"
  by (simp add: valid_items_def count_status_def update_def render_def trailing_count_def
      str_int_def suffix_def u_def)

section \<open>Properties of the sandbox path resolver\<close>

lemma link_at_no_links: "no_links f \<Longrightarrow> link_at ev f q = None"
  by (simp add: link_at_def no_links_def split: option.splits node.splits)

lemma realpath_plain:
  "no_links f \<Longrightarrow> list_all plain cs \<Longrightarrow>
   realpath ev f (cur, cs @ rest) = realpath ev f (cur @ cs, rest)"
proof (induction cs arbitrary: cur)
  case Nil
  then show ?case by simp
next
  case (Cons c cs)
  from Cons.prems have c: "plain c" and cs: "list_all plain cs" by simp_all
  have "realpath ev f (cur, (c # cs) @ rest) = realpath ev f (cur @ [c], cs @ rest)"
    using c link_at_no_links [OF Cons.prems(1), of ev "cur @ [c]"]
    by (subst realpath.simps) (simp add: plain_def)
  also have "\<dots> = realpath ev f ((cur @ [c]) @ cs, rest)"
    using Cons.IH [OF Cons.prems(1) cs] .
  finally show ?case by simp
qed

lemma realpath_done: "realpath ev f (cur, []) = Some (Inr cur)"
  by (subst realpath.simps) simp












lemma no_links_sample: "no_links sample_fs"
  by (simp add: no_links_def sample_fs_def)

lemma plain_sample: "list_all plain (workdir sample_env)"
  by (simp add: sample_env_def plain_def fs_encodable_def u_def)

lemma safe_path_name:
  assumes "no_links f" "list_all plain (workdir ev)" "plain c" "\<not> is_abs c" "split_path c = [c]"
  shows "safe_path ev f c = Inr (workdir ev @ [c])"
proof -
  have pl: "list_all plain (workdir ev @ [c])" using assms(2,3) by simp
  have "realpath ev f ([], (workdir ev @ [c]) @ []) = realpath ev f ([] @ (workdir ev @ [c]), [])"
    using assms(1) pl by (rule realpath_plain)
  then have "resolve ev f (workdir ev @ [c]) = Inr (workdir ev @ [c])"
    by (simp add: resolve_def realpath_done)
  then show ?thesis using assms(4,5) by (simp add: safe_path_def joined_def)
qed

lemma safe_path_sample:
  assumes "plain c" "\<not> is_abs c" "split_path c = [c]"
  shows "safe_path sample_env sample_fs c = Inr [u ''home'', u ''work'', c]"
  using safe_path_name [OF no_links_sample plain_sample assms] by (simp add: sample_env_def)



section \<open>Properties of the shell executor\<close>

text \<open>\<open>old in s\<close> holds exactly when \<open>old\<close> occurs in \<open>s\<close> as a contiguous part.\<close>

lemma contains_sublist: "contains old s \<longleftrightarrow> (\<exists>pre post. s = pre @ old @ post)"
proof (induction s)
  case Nil
  then show ?case by auto
next
  case (Cons c cs)
  show ?case
  proof
    assume "contains old (c # cs)"
    then consider "prefix old (c # cs)" | "contains old cs" by auto
    then show "\<exists>pre post. c # cs = pre @ old @ post"
    proof cases
      case 1
      then obtain post where "c # cs = old @ post" by (auto simp: prefix_def)
      then have "c # cs = [] @ old @ post" by simp
      then show ?thesis by blast
    next
      case 2
      with Cons obtain pre post where "cs = pre @ old @ post" by blast
      then have "c # cs = (c # pre) @ old @ post" by simp
      then show ?thesis by blast
    qed
  next
    assume "\<exists>pre post. c # cs = pre @ old @ post"
    then obtain pre post where e: "c # cs = pre @ old @ post" by blast
    show "contains old (c # cs)"
    proof (cases pre)
      case Nil
      with e have "prefix old (c # cs)" by (simp add: prefix_def)
      then show ?thesis by simp
    next
      case (Cons a pre')
      with e have "cs = pre' @ old @ post" by simp
      with Cons.IH show ?thesis by auto
    qed
  qed
qed

lemma run_bash_blocks:
  "d \<in> set dangerous \<Longrightarrow> contains d cmd \<Longrightarrow>
   run_bash ev cmd w = (u ''Error: Dangerous command blocked'', w)"
  by (auto simp: run_bash_def list_ex_iff)

lemma run_bash_v1_blocks:
  "d \<in> set dangerous_v1 \<Longrightarrow> contains d cmd \<Longrightarrow>
   run_bash_v1 ev cmd w = (u ''Error: Dangerous command blocked'', w)"
  by (auto simp: run_bash_v1_def list_ex_iff)

lemma run_bash_sudo:
  "contains (u ''sudo'') cmd \<Longrightarrow>
     run_bash ev cmd w = (u ''Error: Dangerous command blocked'', w) \<and>
     run_bash_v1 ev cmd w = (u ''Error: Dangerous command blocked'', w)"
  by (simp add: run_bash_def run_bash_v1_def dangerous_def dangerous_v1_def)

text \<open>
  C6. The denylist of v1 has the five substrings the claim lists; that of v2 lacks the
  raw device redirection \<open>> /dev/\<close>. A command that redirects to a raw device is blocked
  by v1 with nothing spawned, while v2 hands it to \<open>subprocess.run\<close>.
\<close>

theorem run_bash_device_redirection:
  "contains (u ''> /dev/'') (u ''echo x > /dev/sda'') \<and>
   run_bash_v1 ev (u ''echo x > /dev/sda'') w = (u ''Error: Dangerous command blocked'', w) \<and>
   run_bash ev (u ''echo x > /dev/sda'') w = spawn ev (u ''Error: Timeout'') (u ''echo x > /dev/sda'') w \<and>
   spawned (snd (run_bash ev (u ''echo x > /dev/sda'') w)) = spawned w @ [u ''echo x > /dev/sda'']"
proof -
  have c: "contains (u ''> /dev/'') (u ''echo x > /dev/sda'')" by (simp add: u_def)
  have v1: "run_bash_v1 ev (u ''echo x > /dev/sda'') w = (u ''Error: Dangerous command blocked'', w)"
    using c by (simp add: run_bash_v1_def dangerous_v1_def)
  have v2: "run_bash ev (u ''echo x > /dev/sda'') w =
      spawn ev (u ''Error: Timeout'') (u ''echo x > /dev/sda'') w"
    by (simp add: run_bash_def dangerous_def u_def)
  have "spawned (snd (spawn ev t cmd w)) = spawned w @ [cmd]" for t cmd
    by (simp add: spawn_def split: prod.splits)
  with c v1 v2 show ?thesis by simp
qed

section \<open>Properties of the file tools\<close>

lemma run_read_positive_limit:
  assumes "safe_path ev (fs w) p = Inr q" "read_text ev (fs w) q = Inr text"
    and "0 < l" "l < int (length (splitlines text))"
  shows "run_read ev p (Some l) w =
    take 50000 (py_join [10] (take (nat l) (splitlines text) @
       [u ''... ('' @ str_int (int (length (splitlines text)) - l) @ u '' more)'']))"
  using assms by (simp add: run_read_def run_read_try_def on_error_def limit_lines_def slice_to_def)

lemma sample_notes_path:
  "safe_path sample_env sample_fs (u ''notes.txt'') = Inr [u ''home'', u ''work'', u ''notes.txt'']"
  by (rule safe_path_sample) (simp_all add: plain_def fs_encodable_def is_abs_def split_path_def u_def)

lemma sample_notes_text:
  "read_text sample_env sample_fs [u ''home'', u ''work'', u ''notes.txt''] = Inr (u ''a\<newline>b\<newline>c'')"
  by (simp add: read_text_def sample_env_def is_dir_def through_file_def is_regular_def sample_fs_def u_def)

lemma sample_notes_lines: "splitlines (u ''a\<newline>b\<newline>c'') = [u ''a'', u ''b'', u ''c'']"
  by (simp add: splitlines_def u_def is_linebreak_def)

text \<open>
  C7. A limit of \<open>0\<close> is false as the condition \<open>if limit and ...\<close>, so \<open>run_read\<close>
  treats it as no limit: a file of three lines read with limit \<open>0\<close> comes back whole, with
  no marker, in both versions.
\<close>

theorem run_read_limit_zero:
  "run_read ev p (Some 0) w = run_read ev p None w \<and>
   run_read_v1 ev p (Some 0) w = run_read_v1 ev p None w \<and>
   length (splitlines (u ''a\<newline>b\<newline>c'')) = 3 \<and>
   run_read sample_env (u ''notes.txt'') (Some 0) sample_world = u ''a\<newline>b\<newline>c'' \<and>
   run_read_v1 sample_env (u ''notes.txt'') (Some 0) sample_world = u ''a\<newline>b\<newline>c'' \<and>
   u ''a\<newline>b\<newline>c'' \<noteq> u ''... (3 more)'' \<and>
   u ''a\<newline>b\<newline>c'' \<noteq> u ''... (3 more lines)''"
proof -
  have l: "limit_lines m (Some 0) ls = limit_lines m None ls" for m ls
    by (simp add: limit_lines_def)
  have z: "run_read_try ev m p (Some 0) f = run_read_try ev m p None f" for m f
    by (simp add: run_read_try_def l split: sum.splits)
  have j: "take 50000 (py_join [10] [u ''a'', u ''b'', u ''c'']) = u ''a\<newline>b\<newline>c''"
    by (simp add: u_def)
  have s: "run_read_try sample_env m (u ''notes.txt'') None sample_fs = Inr (u ''a\<newline>b\<newline>c'')" for m
    using j by (simp add: run_read_try_def sample_notes_path sample_notes_text sample_notes_lines
        limit_lines_def)
  have z': "run_read_try sample_env m (u ''notes.txt'') (Some 0) sample_fs = Inr (u ''a\<newline>b\<newline>c'')" for m
    using j by (simp add: run_read_try_def sample_notes_path sample_notes_text sample_notes_lines
        limit_lines_def)
  have n: "u ''a\<newline>b\<newline>c'' \<noteq> u ''... (3 more)''"
    "u ''a\<newline>b\<newline>c'' \<noteq> u ''... (3 more lines)''"
    by (simp_all add: u_def)
  show ?thesis
    using n by (simp add: run_read_def run_read_v1_def z z' sample_world_def on_error_def
        sample_notes_lines)
qed

lemma replace_first_at:
  "first_at old s k \<Longrightarrow> replace_first old new s = take k s @ new @ drop (k + length old) s"
proof (induction s arbitrary: k)
  case Nil
  then show ?case by (auto simp: first_at_def)
next
  case (Cons c cs)
  show ?case
  proof (cases k)
    case 0
    with Cons.prems show ?thesis by (simp add: first_at_def)
  next
    case (Suc j)
    have "0 \<in> set [0..<k]" using Suc by (simp del: upt_Suc)
    with Cons.prems have "\<not> prefix old (drop 0 (c # cs))"
      unfolding first_at_def list_all_iff by blast
    then have np: "\<not> prefix old (c # cs)" by simp
    have "first_at old cs j"
      unfolding first_at_def list_all_iff
    proof (intro conjI ballI)
      show "j \<le> length cs" using Cons.prems Suc by (simp add: first_at_def)
      show "prefix old (drop j cs)" using Cons.prems Suc by (simp add: first_at_def)
      fix i assume "i \<in> set [0..<j]"
      then have "Suc i \<in> set [0..<k]" using Suc by (simp del: upt_Suc)
      with Cons.prems have "\<not> prefix old (drop (Suc i) (c # cs))"
        unfolding first_at_def list_all_iff by blast
      then show "\<not> prefix old (drop i cs)" by simp
    qed
    from Cons.IH [OF this] np Suc show ?thesis by simp
  qed
qed

lemma first_at_contains: "first_at old s k \<Longrightarrow> contains old s"
proof -
  assume "first_at old s k"
  then obtain post where "drop k s = old @ post" by (auto simp: first_at_def prefix_def)
  then have "s = take k s @ old @ post" by (metis append_take_drop_id)
  then show ?thesis unfolding contains_sublist by blast
qed

lemma universal_newlines_no_cr: "13 \<notin> set t \<Longrightarrow> universal_newlines t = t"
  by (induction t rule: universal_newlines.induct) auto

lemma run_edit_not_found:
  assumes "safe_path ev (fs w) p = Inr fp" "read_text ev (fs w) fp = Inr text"
    and "\<not> contains old_text text"
  shows "run_edit ev p old_text new_text w = (u ''Error: Text not found in '' @ p, w)"
  using assms by (simp add: run_edit_def run_edit_try_def on_error_def)

lemma run_edit_first_occurrence:
  assumes "safe_path ev (fs w) p = Inr fp" "read_text ev (fs w) fp = Inr text"
    and "first_at old_text text k" 
    and "is_dir (fs w) (butlast fp)"
    and "encodable (take k text @ new_text @ drop (k + length old_text) text)"
    and "os_refuses ev (fs w) OpenWrite fp = None"
    and "write_fault ev (fs w) fp (take k text @ new_text @ drop (k + length old_text) text) = None"
  shows "run_edit ev p old_text new_text w =
     (u ''Edited '' @ p,
      w\<lparr>fs := (fs w)(fp \<mapsto> File (take k text @ new_text @ drop (k + length old_text) text))\<rparr>)"
proof -
  from assms(2) obtain t where t: "fs w fp = Some (File t)" and nd: "\<not> is_dir (fs w) fp"
    and nt: "\<not> through_file (fs w) fp"
    by (auto simp: read_text_def split: if_splits option.splits node.splits)
  have "write_text ev (fs w) fp (take k text @ new_text @ drop (k + length old_text) text) =
     (Inr (), (fs w)(fp \<mapsto> File (take k text @ new_text @ drop (k + length old_text) text)))"
    using t nd nt assms(4,5,6,7) by (simp add: write_text_def)
  then show ?thesis
    using assms(1,2) first_at_contains [OF assms(3)] replace_first_at [OF assms(3)]
    by (simp add: run_edit_def run_edit_try_def on_error_def)
qed

text \<open>
  C4. Reading in text mode turns every \<open>\r\n\<close> into \<open>\n\<close> before the replacement, and
  the text is written back as read. On a file \<open>x\r\ny x\<close> the edit of \<open>x\<close> to \<open>z\<close>
  replaces the first occurrence only, and leaves \<open>z\ny x\<close>: the remainder
  \<open>\r\ny x\<close> has lost its carriage return.
\<close>

theorem run_edit_rewrites_line_endings:
  "sample_fs dos_path = Some (File ([120, 13, 10] @ u ''y x'')) \<and>
   contains (u ''x'') ([120, 13, 10] @ u ''y x'') \<and>
   run_edit sample_env (u ''dos.txt'') (u ''x'') (u ''z'') sample_world =
     (u ''Edited dos.txt'', sample_world\<lparr>fs := sample_fs(dos_path \<mapsto> File ([122, 10] @ u ''y x''))\<rparr>) \<and>
   [122, 10] @ u ''y x'' \<noteq> [122, 13, 10] @ u ''y x''"
proof -
  have "safe_path sample_env sample_fs (u ''dos.txt'') = Inr [u ''home'', u ''work'', u ''dos.txt'']"
    by (rule safe_path_sample)
      (simp_all add: plain_def fs_encodable_def is_abs_def split_path_def u_def)
  then have sp: "safe_path sample_env sample_fs (u ''dos.txt'') = Inr dos_path"
    by (simp add: dos_path_def)
  have rd: "read_text sample_env sample_fs dos_path = Inr ([120, 10] @ u ''y x'')"
    by (simp add: read_text_def sample_env_def is_dir_def through_file_def is_regular_def sample_fs_def u_def
        dos_path_def)
  have rp: "contains (u ''x'') ([120, 10] @ u ''y x'')"
    "replace_first (u ''x'') (u ''z'') ([120, 10] @ u ''y x'') = [122, 10] @ u ''y x''"
    by (simp_all add: u_def)
  have wr: "write_text sample_env sample_fs dos_path ([122, 10] @ u ''y x'') =
      (Inr (), sample_fs(dos_path \<mapsto> File ([122, 10] @ u ''y x'')))"
    by (simp add: write_text_def sample_env_def is_dir_def through_file_def is_regular_def sample_fs_def u_def
        dos_path_def encodable_def)
  have ed: "run_edit sample_env (u ''dos.txt'') (u ''x'') (u ''z'') sample_world =
     (u ''Edited dos.txt'', sample_world\<lparr>fs := sample_fs(dos_path \<mapsto> File ([122, 10] @ u ''y x''))\<rparr>)"
    using sp rd rp wr
    by (simp add: run_edit_def run_edit_try_def on_error_def sample_world_def) (simp add: u_def)
  have "sample_fs dos_path = Some (File ([120, 13, 10] @ u ''y x''))"
    by (simp add: sample_fs_def dos_path_def u_def)
  moreover have "contains (u ''x'') ([120, 13, 10] @ u ''y x'')" by (simp add: u_def)
  ultimately show ?thesis using ed by simp
qed








section \<open>Properties of the dispatcher\<close>

lemma on_error_Inl: "prefix (u ''Error: '') (on_error ev (Inl e))"
  by (simp add: on_error_def)

lemma isl_on_error: "isl r \<Longrightarrow> prefix (u ''Error: '') (on_error ev r)"
  by (cases r) (simp_all add: on_error_def)

lemma spawn_failed:
  "(case fst (shell ev cmd (fs w)) of Completed out err \<Rightarrow> False | _ \<Rightarrow> True) \<Longrightarrow>
   prefix (u ''Error: '') t \<Longrightarrow> prefix (u ''Error: '') (fst (spawn ev t cmd w))"
  by (auto simp: spawn_def split: prod.splits proc.splits)

lemma run_bash_failed:
  "bash_failed dangerous ev cmd w \<Longrightarrow> prefix (u ''Error: '') (fst (run_bash ev cmd w))"
proof -
  assume a: "bash_failed dangerous ev cmd w"
  have t: "prefix (u ''Error: '') (u ''Error: Timeout'')" by (simp add: u_def)
  have b: "prefix (u ''Error: '') (u ''Error: Dangerous command blocked'')" by (simp add: u_def)
  show ?thesis
  proof (cases "list_ex (\<lambda>d. contains d cmd) dangerous")
    case True
    with b show ?thesis by (simp add: run_bash_def)
  next
    case False
    with a spawn_failed [OF _ t, of ev cmd w] show ?thesis
      by (simp add: run_bash_def bash_failed_def)
  qed
qed

lemma run_bash_v1_failed:
  "bash_failed dangerous_v1 ev cmd w \<Longrightarrow> prefix (u ''Error: '') (fst (run_bash_v1 ev cmd w))"
proof -
  assume a: "bash_failed dangerous_v1 ev cmd w"
  have t: "prefix (u ''Error: '') (u ''Error: Command timed out (60s)'')" by (simp add: u_def)
  have b: "prefix (u ''Error: '') (u ''Error: Dangerous command blocked'')" by (simp add: u_def)
  show ?thesis
  proof (cases "list_ex (\<lambda>d. contains d cmd) dangerous_v1")
    case True
    with b show ?thesis by (simp add: run_bash_v1_def)
  next
    case False
    with a spawn_failed [OF _ t, of ev cmd w] show ?thesis
      by (simp add: run_bash_v1_def bash_failed_def)
  qed
qed

lemma run_read_try_isl: "isl (run_read_try ev m p l f) = isl (run_read_try ev m' p l f)"
  by (simp add: run_read_try_def split: sum.splits)

lemma run_read_failed:
  "isl (run_read_try ev [] p l (fs w)) \<Longrightarrow>
   prefix (u ''Error: '') (run_read ev p l w) \<and> prefix (u ''Error: '') (run_read_v1 ev p l w)"
  using run_read_try_isl [of ev "[]" p l "fs w"]
  by (simp add: run_read_def run_read_v1_def isl_on_error)

lemma run_write_failed:
  "isl (fst (run_write_try ev p data (fs w))) \<Longrightarrow> prefix (u ''Error: '') (fst (run_write ev p data w))"
  by (auto simp: run_write_def isl_on_error split: prod.splits)

lemma run_edit_failed:
  assumes "edit_failed ev p old_text new_text w"
  shows "prefix (u ''Error: '') (fst (run_edit ev p old_text new_text w))"
proof (cases "isl (fst (run_edit_try ev p old_text new_text (fs w)))")
  case True
  then show ?thesis by (auto simp: run_edit_def isl_on_error split: prod.splits)
next
  case False
  with assms obtain fp tx where "safe_path ev (fs w) p = Inr fp" "read_text ev (fs w) fp = Inr tx"
    "\<not> contains old_text tx"
    by (auto simp: edit_failed_def split: sum.splits)
  then have "fst (run_edit ev p old_text new_text w) = u ''Error: Text not found in '' @ p"
    by (simp add: run_edit_def run_edit_try_def on_error_def)
  then show ?thesis by (simp add: u_def)
qed

lemma run_todo_failed:
  assumes "violates (ulower ev) items"
  shows "\<exists>msg. run_todo ev items w = (u ''Error: '' @ msg, w)"
proof -
  from update_raises [OF assms, of "todo w"] obtain msg where
    "update (ulower ev) items (todo w) = (Inl (ValueError msg), todo w)" by blast
  then have "run_todo ev items w = (u ''Error: '' @ msg, w)"
    by (simp add: run_todo_def on_error_def)
  then show ?thesis by blast
qed

lemma u_eq_iff [simp]: "u a = u b \<longleftrightarrow> a = b"
proof -
  have "inj (of_char :: char \<Rightarrow> nat)" by (rule inj_of_char)
  then show ?thesis unfolding u_def by (simp add: inj_map_eq_map)
qed

lemma execute_tool_returns:
  assumes "schema_ok name inp"
  shows "(\<exists>t w'. execute_tool ev name inp w = (Inr t, w') \<and>
            (tool_failed False ev name inp w \<longrightarrow> prefix (u ''Error: '') t) \<and>
            (name \<notin> set tool_names \<longrightarrow> t = u ''Unknown tool: '' @ name \<and> w' = w)) \<and>
         (\<exists>t w'. execute_tool_v1 ev name inp w = (Inr t, w') \<and>
            (tool_failed True ev name inp w \<longrightarrow> prefix (u ''Error: '') t) \<and>
            (name \<notin> set tool_names_v1 \<longrightarrow> t = u ''Unknown tool: '' @ name \<and> w' = w))"
proof -
  consider (c_bash) "name = u ''bash''" | (c_read) "name = u ''read_file''"
    | (c_write) "name = u ''write_file''" | (c_edit) "name = u ''edit_file''"
    | (c_todo) "name = u ''TodoWrite''" | (c_other) "name \<notin> set tool_names"
    by (auto simp: tool_names_def)
  then show ?thesis
  proof cases
    case c_bash
    with assms obtain cmd where c: "in_command inp = Some cmd" by (auto simp: schema_ok_def)
    obtain t w' where r: "run_bash ev cmd w = (t, w')" by (cases "run_bash ev cmd w")
    obtain t1 w1 where r1: "run_bash_v1 ev cmd w = (t1, w1)" by (cases "run_bash_v1 ev cmd w")
    from run_bash_failed [of ev cmd w] r
    have f: "bash_failed dangerous ev cmd w \<longrightarrow> prefix (u ''Error: '') t" by simp
    from run_bash_v1_failed [of ev cmd w] r1
    have f1: "bash_failed dangerous_v1 ev cmd w \<longrightarrow> prefix (u ''Error: '') t1" by simp
    from c_bash c r r1 f f1 show ?thesis
      by (simp add: execute_tool_def execute_tool_v1_def subscript_def tool_failed_def
          tool_names_def tool_names_v1_def)
  next
    case c_read
    with assms obtain p where p: "in_path inp = Some p" by (auto simp: schema_ok_def u_eq_iff)
    from c_read p run_read_failed [of ev p "in_limit inp" w] show ?thesis
      by (simp add: execute_tool_def execute_tool_v1_def subscript_def tool_failed_def
          tool_names_def tool_names_v1_def u_eq_iff)
  next
    case c_write
    with assms obtain p data where p: "in_path inp = Some p" "in_content inp = Some data"
      by (auto simp: schema_ok_def u_eq_iff)
    obtain t w' where r: "run_write ev p data w = (t, w')" by (cases "run_write ev p data w")
    from run_write_failed [of ev p data w] r
    have "isl (fst (run_write_try ev p data (fs w))) \<longrightarrow> prefix (u ''Error: '') t" by simp
    with c_write p r show ?thesis
      by (simp add: execute_tool_def execute_tool_v1_def subscript_def tool_failed_def
          tool_names_def tool_names_v1_def u_eq_iff)
  next
    case c_edit
    with assms obtain p ot nt where p: "in_path inp = Some p" "in_old_text inp = Some ot"
      "in_new_text inp = Some nt"
      by (auto simp: schema_ok_def u_eq_iff)
    obtain t w' where r: "run_edit ev p ot nt w = (t, w')" by (cases "run_edit ev p ot nt w")
    from run_edit_failed [of ev p ot nt w] r
    have "edit_failed ev p ot nt w \<longrightarrow> prefix (u ''Error: '') t" by simp
    with c_edit p r show ?thesis
      by (simp add: execute_tool_def execute_tool_v1_def subscript_def tool_failed_def
          tool_names_def tool_names_v1_def u_eq_iff)
  next
    case c_todo
    with assms obtain items where i: "in_items inp = Some items"
      by (auto simp: schema_ok_def u_eq_iff)
    obtain t w' where r: "run_todo ev items w = (t, w')" by (cases "run_todo ev items w")
    from run_todo_failed [of ev items w] r
    have "violates (ulower ev) items \<longrightarrow> prefix (u ''Error: '') t" by auto
    with c_todo i r show ?thesis
      by (simp add: execute_tool_def execute_tool_v1_def subscript_def tool_failed_def
          tool_names_def tool_names_v1_def u_eq_iff)
  next
    case c_other
    then show ?thesis
      by (simp add: execute_tool_def execute_tool_v1_def tool_failed_def
          tool_names_def tool_names_v1_def)
  qed
qed

text \<open>
  C5. For every tool name and every input that has the keys the tool's schema requires,
  \<open>execute_tool\<close> returns a text and raises nothing, in both versions; the text starts
  with \<open>Error: \<close> whenever the tool failed inside (denylisted command, timeout, bad
  path, missing file, failed edit match, task-list violation); and a name that is no tool
  gives \<open>Unknown tool: name\<close> and changes nothing.
\<close>

theorem execute_tool_never_raises:
  assumes "schema_ok name inp"
  shows "(\<exists>t w'. execute_tool ev name inp w = (Inr t, w') \<and>
            (tool_failed False ev name inp w \<longrightarrow> prefix (u ''Error: '') t) \<and>
            (name \<notin> set tool_names \<longrightarrow> t = u ''Unknown tool: '' @ name \<and> w' = w)) \<and>
         (\<exists>t w'. execute_tool_v1 ev name inp w = (Inr t, w') \<and>
            (tool_failed True ev name inp w \<longrightarrow> prefix (u ''Error: '') t) \<and>
            (name \<notin> set tool_names_v1 \<longrightarrow> t = u ''Unknown tool: '' @ name \<and> w' = w))"
  using assms by (rule execute_tool_returns)

lemma sample_missing_path:
  "safe_path sample_env sample_fs (u ''missing.txt'') = Inr [u ''home'', u ''work'', u ''missing.txt'']"
  by (rule safe_path_sample) (simp_all add: plain_def fs_encodable_def is_abs_def split_path_def u_def)

lemma sample_missing_read:
  "read_text sample_env sample_fs [u ''home'', u ''work'', u ''missing.txt''] = Inl (OSFailure ENOENT)"
  by (simp add: read_text_def sample_env_def is_dir_def through_file_def is_regular_def sample_fs_def u_def)

lemma sample_read_fails:
  "run_read_try sample_env m (u ''missing.txt'') l sample_fs = Inl (OSFailure ENOENT)"
  by (simp add: run_read_try_def sample_missing_path sample_missing_read)

theorem execute_tool_never_raises_witness:
  "schema_ok (u ''read_file'') (no_input\<lparr>in_path := Some (u ''missing.txt'')\<rparr>) \<and>
   tool_failed False sample_env (u ''read_file'') (no_input\<lparr>in_path := Some (u ''missing.txt'')\<rparr>)
     sample_world \<and>
   (\<exists>t w'. execute_tool sample_env (u ''read_file'') (no_input\<lparr>in_path := Some (u ''missing.txt'')\<rparr>)
              sample_world = (Inr t, w') \<and> prefix (u ''Error: '') t) \<and>
   tool_failed True sample_env (u ''read_file'') (no_input\<lparr>in_path := Some (u ''missing.txt'')\<rparr>)
     sample_world \<and>
   (\<exists>t w'. execute_tool_v1 sample_env (u ''read_file'') (no_input\<lparr>in_path := Some (u ''missing.txt'')\<rparr>)
              sample_world = (Inr t, w') \<and> prefix (u ''Error: '') t) \<and>
   schema_ok (u ''deploy'') no_input \<and> u ''deploy'' \<notin> set tool_names \<and>
   (\<exists>t w'. execute_tool sample_env (u ''deploy'') no_input sample_world = (Inr t, w') \<and>
      t = u ''Unknown tool: deploy'' \<and> w' = sample_world) \<and>
   schema_ok (u ''TodoWrite'') (no_input\<lparr>in_items := Some ItemsOther\<rparr>) \<and>
   u ''TodoWrite'' \<notin> set tool_names_v1 \<and>
   (\<exists>t w'. execute_tool_v1 sample_env (u ''TodoWrite'') (no_input\<lparr>in_items := Some ItemsOther\<rparr>)
              sample_world = (Inr t, w') \<and> t = u ''Unknown tool: TodoWrite'' \<and> w' = sample_world)"
proof -
  let ?rd = "no_input\<lparr>in_path := Some (u ''missing.txt'')\<rparr>"
  let ?td = "no_input\<lparr>in_items := Some ItemsOther\<rparr>"
  have a: "schema_ok (u ''read_file'') ?rd"
    by (simp add: schema_ok_def no_input_def)
  have b: "tool_failed False sample_env (u ''read_file'') ?rd sample_world"
    "tool_failed True sample_env (u ''read_file'') ?rd sample_world"
    by (simp_all add: tool_failed_def no_input_def sample_world_def sample_read_fails)
  have c: "schema_ok (u ''deploy'') no_input" by (simp add: schema_ok_def)
  have d: "u ''deploy'' \<notin> set tool_names" by (simp add: tool_names_def)
  have e: "u ''Unknown tool: '' @ u ''deploy'' = u ''Unknown tool: deploy''"
    "u ''Unknown tool: '' @ u ''TodoWrite'' = u ''Unknown tool: TodoWrite''" by (simp_all add: u_def)
  have f: "schema_ok (u ''TodoWrite'') ?td" by (simp add: schema_ok_def no_input_def)
  have g: "u ''TodoWrite'' \<notin> set tool_names_v1" by (simp add: tool_names_v1_def)
  from execute_tool_never_raises [OF a, of sample_env sample_world] b
  have 1: "\<exists>t w'. execute_tool sample_env (u ''read_file'') ?rd sample_world = (Inr t, w') \<and>
      prefix (u ''Error: '') t"
    and 2: "\<exists>t w'. execute_tool_v1 sample_env (u ''read_file'') ?rd sample_world = (Inr t, w') \<and>
      prefix (u ''Error: '') t" by blast+
  from execute_tool_never_raises [OF c, of sample_env sample_world] d e
  have 3: "\<exists>t w'. execute_tool sample_env (u ''deploy'') no_input sample_world = (Inr t, w') \<and>
      t = u ''Unknown tool: deploy'' \<and> w' = sample_world" by auto
  from execute_tool_never_raises [OF f, of sample_env sample_world] g e
  have 4: "\<exists>t w'. execute_tool_v1 sample_env (u ''TodoWrite'') ?td sample_world = (Inr t, w') \<and>
      t = u ''Unknown tool: TodoWrite'' \<and> w' = sample_world" by auto
  from a b c d f g 1 2 3 4 show ?thesis by blast
qed

lemma execute_tool_missing_key:
  "execute_tool ev (u ''bash'') no_input w = (Inl (KeyError (u ''command'')), w)"
  by (simp add: execute_tool_def subscript_def no_input_def)

section \<open>Properties of the reminder counter\<close>















































end
